theory Spec2Isabelle
  imports Main
begin

section \<open>Configuration of gobot-bme280: data model\<close>

text \<open>
  The development embeds \<^verbatim>\<open>internal/config/config.go\<close>. Go strings are byte
  sequences (\<open>string\<close>, a list of 8-bit characters); Go's \<open>int\<close> is modelled as
  \<open>int\<close>, the only place where its width matters being the range check of
  \<open>strconv.Atoi\<close>, written out below for the 64-bit targets.

  A Go \<open>error\<close> is a value: \<open>errors.New\<close> and \<open>fmt.Errorf\<close> build an error from its
  text, \<open>strconv\<close> builds a \<open>NumError\<close> of the function, the offending input and one
  of the two sentinel errors.
\<close>

datatype error =
    ErrorString string
  | NumError string string error

definition ErrSyntax :: error where
  "ErrSyntax = ErrorString ''invalid syntax''"

definition ErrRange :: error where
  "ErrRange = ErrorString ''value out of range''"

text \<open>
  \<open>MqttConfig\<close> and \<open>SensorConfig\<close> are embedded in \<open>Config\<close>; both are declared in
  files of the package that are not among the sources.

  The sensor configuration stays abstract: it is the type parameter \<open>'s\<close>, and its
  three operations used here (\<open>defaultSensorConfig\<close>, \<open>SensorConfig.ConfigFromEnv\<close>,
  \<open>SensorConfig.Validate\<close>) are parameters of the functions that call them. So is
  \<open>MqttConfig.Validate\<close>.
\<close>

text \<open>
  Modelled from the spec: the declaration of \<open>MqttConfig\<close> is missing; the record has
  the fields that \<open>ConfigFromEnv\<close> assigns (\<open>Host\<close>, \<open>Topic\<close>, \<open>ClientKeyFile\<close>,
  \<open>ClientCertFile\<close>) and the server CA path that the specification and \<open>main\<close> name
  (\<open>ServerCaFile\<close>), all strings.
\<close>

record MqttConfig =
  Host :: string
  Topic :: string
  ClientKeyFile :: string
  ClientCertFile :: string
  ServerCaFile :: string

record 's Config =
  Placement :: string
  MetricConfig :: string
  IntervalSecs :: int
  LogSensor :: bool
  DisableMqtt :: bool
  MqttConfig :: MqttConfig
  SensorConfig :: 's

definition BotName :: string where
  "BotName = ''gobot_bme280''"

definition defaultLogSensor :: bool where
  "defaultLogSensor = False"

definition defaultIntervalSeconds :: int where
  "defaultIntervalSeconds = 30"

definition defaultMetricConfig :: string where
  "defaultMetricConfig = '':9192''"

text \<open>The zero value of \<open>MqttConfig\<close>: every string empty.\<close>

definition zeroMqttConfig :: MqttConfig where
  "zeroMqttConfig =
     \<lparr>Host = [], Topic = [], ClientKeyFile = [], ClientCertFile = [], ServerCaFile = []\<rparr>"

text \<open>
  \<open>DefaultConfig\<close>: the composite literal names four fields; the others keep their
  zero values. The argument is the result of \<open>defaultSensorConfig()\<close>.
\<close>

definition DefaultConfig :: "'s \<Rightarrow> 's Config" where
  "DefaultConfig defaultSensorConfig =
     \<lparr>Placement = [],
      MetricConfig = defaultMetricConfig,
      IntervalSecs = defaultIntervalSeconds,
      LogSensor = defaultLogSensor,
      DisableMqtt = False,
      MqttConfig = zeroMqttConfig,
      SensorConfig = defaultSensorConfig\<rparr>"

section \<open>Formatting integers\<close>

text \<open>The verb \<open>%d\<close> of \<open>fmt\<close> on an \<open>int\<close>: decimal digits, with a minus sign.\<close>

definition digitChar :: "nat \<Rightarrow> char" where
  "digitChar d = char_of (48 + d)"

fun decimal :: "nat \<Rightarrow> string" where
  "decimal n = (if n < 10 then [digitChar n] else decimal (n div 10) @ [digitChar (n mod 10)])"

declare decimal.simps [simp del]

definition formatInt :: "int \<Rightarrow> string" where
  "formatInt i = (if i < 0 then CHR ''-'' # decimal (nat (- i)) else decimal (nat i))"

section \<open>Validation\<close>

text \<open>
  \<open>Config.Validate\<close>, with \<open>nil\<close> as \<open>None\<close>. The two sub-validations are the
  parameters \<open>sensorValidate\<close> and \<open>mqttValidate\<close>.
\<close>

definition Validate ::
  "('s \<Rightarrow> error option) \<Rightarrow> (MqttConfig \<Rightarrow> error option) \<Rightarrow> 's Config \<Rightarrow> error option" where
  "Validate sensorValidate mqttValidate conf =
     (if Placement conf = [] then Some (ErrorString ''empty placement provided'')
      else if IntervalSecs conf < 30 then
        Some (ErrorString (''invalid interval: must not be lower than 30 but is '' @
          formatInt (IntervalSecs conf)))
      else if IntervalSecs conf > 300 then
        Some (ErrorString (''invalid interval: mut not be greater than 300 but is '' @
          formatInt (IntervalSecs conf)))
      else (case sensorValidate (SensorConfig conf) of
          Some err \<Rightarrow> Some err
        | None \<Rightarrow> if DisableMqtt conf then None else mqttValidate (MqttConfig conf)))"

section \<open>The standard library, as far as the package uses it\<close>

text \<open>
  \<open>strings.ToUpper\<close> on ASCII input: the letters \<open>a\<close> to \<open>z\<close> are shifted by
  \<open>'a' - 'A'\<close>, every other byte is kept. On input with a byte of \<open>0x80\<close> or more
  the library maps Unicode code points instead; that path is not modelled, and the
  statements about names below are made for ASCII names (\<open>isASCII\<close>), as all the
  keys of the package are.
\<close>

definition isASCII :: "string \<Rightarrow> bool" where
  "isASCII s = list_all (\<lambda>c. (of_char c :: nat) < 128) s"

definition upperByte :: "char \<Rightarrow> char" where
  "upperByte c = (let n = (of_char c :: nat) in if 97 \<le> n \<and> n \<le> 122 then char_of (n - 32) else c)"

definition lowerByte :: "char \<Rightarrow> char" where
  "lowerByte c = (let n = (of_char c :: nat) in if 65 \<le> n \<and> n \<le> 90 then char_of (n + 32) else c)"

definition ToUpper :: "string \<Rightarrow> string" where
  "ToUpper s = map upperByte s"

definition ToLower :: "string \<Rightarrow> string" where
  "ToLower s = map lowerByte s"

text \<open>
  \<open>strconv.ParseBool\<close> accepts exactly twelve spellings.
\<close>

definition ParseBool :: "string \<Rightarrow> error + bool" where
  "ParseBool str =
     (if str \<in> set [''1'', ''t'', ''T'', ''true'', ''TRUE'', ''True''] then Inr True
      else if str \<in> set [''0'', ''f'', ''F'', ''false'', ''FALSE'', ''False''] then Inr False
      else Inl (NumError ''ParseBool'' str ErrSyntax))"

text \<open>
  \<open>strconv.Atoi\<close>: an optional sign, then decimal digits only, read from the left; the
  first byte that is no digit is a syntax error, the first digit that takes the
  magnitude beyond \<open>uint64\<close> a range error, and a magnitude that does not fit the
  64-bit \<open>int\<close> is a range error too.
\<close>

definition isDigit :: "char \<Rightarrow> bool" where
  "isDigit c = (let n = (of_char c :: nat) in 48 \<le> n \<and> n \<le> 57)"

definition digitVal :: "char \<Rightarrow> int" where
  "digitVal c = of_char c - 48"

definition maxUint64 :: int where
  "maxUint64 = 18446744073709551615"

definition intCutoff :: int where
  "intCutoff = 9223372036854775808"

fun parseUintDigits :: "int \<Rightarrow> string \<Rightarrow> error + int" where
  "parseUintDigits n [] = Inr n"
| "parseUintDigits n (c # cs) =
     (if \<not> isDigit c then Inl ErrSyntax
      else if n * 10 + digitVal c > maxUint64 then Inl ErrRange
      else parseUintDigits (n * 10 + digitVal c) cs)"

definition Atoi :: "string \<Rightarrow> error + int" where
  "Atoi s =
     (case s of
        [] \<Rightarrow> Inl (NumError ''Atoi'' s ErrSyntax)
      | c # cs \<Rightarrow>
          (let neg = (c = CHR ''-'');
               body = (if c = CHR ''+'' \<or> c = CHR ''-'' then cs else s)
           in if body = [] then Inl (NumError ''Atoi'' s ErrSyntax)
              else (case parseUintDigits 0 body of
                  Inl err \<Rightarrow> Inl (NumError ''Atoi'' s err)
                | Inr un \<Rightarrow>
                    if \<not> neg \<and> un \<ge> intCutoff then Inl (NumError ''Atoi'' s ErrRange)
                    else if neg \<and> un > intCutoff then Inl (NumError ''Atoi'' s ErrRange)
                    else Inr (if neg then - un else un))))"

section \<open>Reading the environment\<close>

text \<open>
  The process environment maps a name to its value when the variable is set.
  \<open>os.Getenv\<close> returns the value, and the empty string for a variable that is not set.
\<close>

type_synonym environ = "string \<Rightarrow> string option"

definition Getenv :: "environ \<Rightarrow> string \<Rightarrow> string" where
  "Getenv env key = (case env key of None \<Rightarrow> [] | Some v \<Rightarrow> v)"

definition computeEnvName :: "string \<Rightarrow> string" where
  "computeEnvName name = ToUpper BotName @ ''_'' @ ToUpper name"

definition fromEnv :: "environ \<Rightarrow> string \<Rightarrow> error + string" where
  "fromEnv env name =
     (let val = Getenv env (computeEnvName name)
      in if val = [] then Inl (ErrorString ''not defined'') else Inr val)"

definition fromEnvInt :: "environ \<Rightarrow> string \<Rightarrow> error + int" where
  "fromEnvInt env name =
     (case fromEnv env name of
        Inl err \<Rightarrow> Inl err
      | Inr val \<Rightarrow> (case Atoi val of Inl err \<Rightarrow> Inl err | Inr parsed \<Rightarrow> Inr parsed))"

definition fromEnvBool :: "environ \<Rightarrow> string \<Rightarrow> error + bool" where
  "fromEnvBool env name =
     (case fromEnv env name of
        Inl err \<Rightarrow> Inl err
      | Inr val \<Rightarrow> (case ParseBool val of Inl err \<Rightarrow> Inl err | Inr parsed \<Rightarrow> Inr parsed))"

text \<open>
  \<open>ConfigFromEnv\<close> sets \<open>conf := DefaultConfig()\<close> and then runs nine guarded
  assignments and the sensor's own \<open>ConfigFromEnv\<close> on \<open>conf\<close>. \<open>envLayer\<close> is that
  sequence of statements as a function of the value \<open>conf\<close> holds when it starts;
  \<open>sensorFromEnv\<close> is the parameter for \<open>SensorConfig.ConfigFromEnv\<close>, which updates the
  sensor configuration in place.
\<close>

definition envLayer :: "environ \<Rightarrow> (environ \<Rightarrow> 's \<Rightarrow> 's) \<Rightarrow> 's Config \<Rightarrow> 's Config" where
  "envLayer env sensorFromEnv conf0 =
     (let conf = (case fromEnv env ''placement'' of
                    Inr placement \<Rightarrow> conf0\<lparr>Placement := placement\<rparr> | Inl err \<Rightarrow> conf0);
          conf = (case fromEnvBool env ''LOG_SENSOR'' of
                    Inr logSensor \<Rightarrow> conf\<lparr>LogSensor := logSensor\<rparr> | Inl err \<Rightarrow> conf);
          conf = (case fromEnvInt env ''INTERVAL_S'' of
                    Inr intervalSeconds \<Rightarrow> conf\<lparr>IntervalSecs := intervalSeconds\<rparr> | Inl err \<Rightarrow> conf);
          conf = (case fromEnvBool env ''DISABLE_MQTT'' of
                    Inr disableMqtt \<Rightarrow> conf\<lparr>DisableMqtt := disableMqtt\<rparr> | Inl err \<Rightarrow> conf);
          conf = (case fromEnv env ''MQTT_HOST'' of
                    Inr mqttHost \<Rightarrow> conf\<lparr>MqttConfig := (MqttConfig conf)\<lparr>Host := mqttHost\<rparr>\<rparr>
                  | Inl err \<Rightarrow> conf);
          conf = (case fromEnv env ''MQTT_TOPIC'' of
                    Inr mqttTopic \<Rightarrow> conf\<lparr>MqttConfig := (MqttConfig conf)\<lparr>Topic := mqttTopic\<rparr>\<rparr>
                  | Inl err \<Rightarrow> conf);
          conf = (case fromEnv env ''METRICS_ADDR'' of
                    Inr metricConfig \<Rightarrow> conf\<lparr>MetricConfig := metricConfig\<rparr> | Inl err \<Rightarrow> conf);
          conf = (case fromEnv env ''SSL_CLIENT_KEY_FILE'' of
                    Inr clientKeyFile \<Rightarrow>
                      conf\<lparr>MqttConfig := (MqttConfig conf)\<lparr>ClientKeyFile := clientKeyFile\<rparr>\<rparr>
                  | Inl err \<Rightarrow> conf);
          conf = (case fromEnv env ''SSL_CLIENT_CERT_FILE'' of
                    Inr clientCertFile \<Rightarrow>
                      conf\<lparr>MqttConfig := (MqttConfig conf)\<lparr>ClientCertFile := clientCertFile\<rparr>\<rparr>
                  | Inl err \<Rightarrow> conf)
      in conf\<lparr>SensorConfig := sensorFromEnv env (SensorConfig conf)\<rparr>)"

definition ConfigFromEnv :: "environ \<Rightarrow> 's \<Rightarrow> (environ \<Rightarrow> 's \<Rightarrow> 's) \<Rightarrow> 's Config" where
  "ConfigFromEnv env defaultSensorConfig sensorFromEnv =
     envLayer env sensorFromEnv (DefaultConfig defaultSensorConfig)"

section \<open>Reading the file\<close>

text \<open>
  \<open>ReadJsonConfig\<close> returns a pair \<open>(*Config, error)\<close>, and both components can be set
  at once, so the model returns the pair: the pointer as an option (\<open>nil\<close> is \<open>None\<close>)
  and the error as an option.

  \<open>os.ReadFile\<close> is the parameter \<open>ReadFile\<close>: at a path it gives the bytes of the file
  (\<open>Inr\<close>) or fails (\<open>Inl\<close>, with the text of its error, which is all that \<open>%v\<close> reads
  of it). \<open>json.Unmarshal\<close> is the parameter \<open>Unmarshal\<close>: given the bytes and the
  value \<open>ret\<close> holds, it gives the value \<open>ret\<close> holds afterwards and its error.
\<close>

definition ReadJsonConfig ::
  "(string \<Rightarrow> string + string) \<Rightarrow> (string \<Rightarrow> 's Config \<Rightarrow> 's Config \<times> error option) \<Rightarrow>
   's \<Rightarrow> string \<Rightarrow> 's Config option \<times> error option" where
  "ReadJsonConfig ReadFile Unmarshal defaultSensorConfig filePath =
     (case ReadFile filePath of
        Inl err \<Rightarrow> (None, Some (ErrorString (''could not read config from file: '' @ err)))
      | Inr fileContent \<Rightarrow>
          (case Unmarshal fileContent (DefaultConfig defaultSensorConfig) of
             (ret, err) \<Rightarrow> (Some ret, err)))"

section \<open>The rules of validation, as the specification lists them\<close>

text \<open>
  The specification describes validation as a list of rules, evaluated in order, where
  the first failure wins. A rule, applied to a configuration, lets it pass to the next
  rule, rejects it with an error, or accepts it at once (the rule for a disabled MQTT
  does so). \<open>firstFailure\<close> runs a list of rules in order and stops at the first one
  that does not pass.
\<close>

datatype outcome = Pass | Reject error | AcceptNow

fun firstFailure :: "('c \<Rightarrow> outcome) list \<Rightarrow> 'c \<Rightarrow> error option" where
  "firstFailure [] conf = None"
| "firstFailure (r # rs) conf =
     (case r conf of
        Pass \<Rightarrow> firstFailure rs conf
      | Reject err \<Rightarrow> Some err
      | AcceptNow \<Rightarrow> None)"

definition rulePlacement :: "'s Config \<Rightarrow> outcome" where
  "rulePlacement conf =
     (if Placement conf \<noteq> [] then Pass else Reject (ErrorString ''empty placement provided''))"

definition ruleIntervalLower :: "'s Config \<Rightarrow> outcome" where
  "ruleIntervalLower conf =
     (if IntervalSecs conf \<ge> 30 then Pass
      else Reject (ErrorString (''invalid interval: must not be lower than 30 but is '' @
        formatInt (IntervalSecs conf))))"

definition ruleIntervalUpper :: "'s Config \<Rightarrow> outcome" where
  "ruleIntervalUpper conf =
     (if IntervalSecs conf \<le> 300 then Pass
      else Reject (ErrorString (''invalid interval: mut not be greater than 300 but is '' @
        formatInt (IntervalSecs conf))))"

definition ruleSensor :: "('s \<Rightarrow> error option) \<Rightarrow> 's Config \<Rightarrow> outcome" where
  "ruleSensor sensorValidate conf =
     (case sensorValidate (SensorConfig conf) of None \<Rightarrow> Pass | Some err \<Rightarrow> Reject err)"

definition ruleMqttDisabled :: "'s Config \<Rightarrow> outcome" where
  "ruleMqttDisabled conf = (if DisableMqtt conf then AcceptNow else Pass)"

definition ruleMqtt :: "(MqttConfig \<Rightarrow> error option) \<Rightarrow> 's Config \<Rightarrow> outcome" where
  "ruleMqtt mqttValidate conf =
     (case mqttValidate (MqttConfig conf) of None \<Rightarrow> Pass | Some err \<Rightarrow> Reject err)"

definition validationRules ::
  "('s \<Rightarrow> error option) \<Rightarrow> (MqttConfig \<Rightarrow> error option) \<Rightarrow> ('s Config \<Rightarrow> outcome) list" where
  "validationRules sensorValidate mqttValidate =
     [rulePlacement, ruleIntervalLower, ruleIntervalUpper, ruleSensor sensorValidate,
      ruleMqttDisabled, ruleMqtt mqttValidate]"

section \<open>Layered resolution, as the specification describes it\<close>

text \<open>
  The keys that \<open>ConfigFromEnv\<close> passes to \<open>fromEnv\<close>, \<open>fromEnvBool\<close> and
  \<open>fromEnvInt\<close>, in the order of its statements.
\<close>

definition recognizedKeys :: "string list" where
  "recognizedKeys =
     [''placement'', ''LOG_SENSOR'', ''INTERVAL_S'', ''DISABLE_MQTT'', ''MQTT_HOST'',
      ''MQTT_TOPIC'', ''METRICS_ADDR'', ''SSL_CLIENT_KEY_FILE'', ''SSL_CLIENT_CERT_FILE'']"

text \<open>
  A layer provides a value for a field or does not; a field that a layer does not
  provide keeps the value of the layer below.
\<close>

definition layer :: "'a \<Rightarrow> 'a option \<Rightarrow> 'a" where
  "layer prior provided = (case provided of None \<Rightarrow> prior | Some v \<Rightarrow> v)"

definition provided :: "error + 'a \<Rightarrow> 'a option" where
  "provided r = (case r of Inl err \<Rightarrow> None | Inr v \<Rightarrow> Some v)"

text \<open>
  What a document provides, field by field: a value for each of the five scalar fields
  of \<open>Config\<close> that it names, and its effect on the two embedded configurations,
  whose keys are declared with them. \<open>applyFields\<close> writes the provided fields into a
  configuration; it is what decoding such a document into \<open>ret\<close> does when it succeeds.
\<close>

record 's FileFields =
  f_placement :: "string option"
  f_metrics_addr :: "string option"
  f_interval_s :: "int option"
  f_log_sensor :: "bool option"
  f_disable_mqtt :: "bool option"
  f_mqtt :: "MqttConfig \<Rightarrow> MqttConfig"
  f_sensor :: "'s \<Rightarrow> 's"

definition applyFields :: "'s FileFields \<Rightarrow> 's Config \<Rightarrow> 's Config" where
  "applyFields p ret =
     \<lparr>Placement = layer (Placement ret) (f_placement p),
      MetricConfig = layer (MetricConfig ret) (f_metrics_addr p),
      IntervalSecs = layer (IntervalSecs ret) (f_interval_s p),
      LogSensor = layer (LogSensor ret) (f_log_sensor p),
      DisableMqtt = layer (DisableMqtt ret) (f_disable_mqtt p),
      MqttConfig = f_mqtt p (MqttConfig ret),
      SensorConfig = f_sensor p (SensorConfig ret)\<rparr>"

text \<open>
  Modelled from the spec: the entry point \<open>config.Read\<close> that \<open>main\<close> calls is not
  among the sources. The specification (4.1) gives it an optional file path, the empty
  string skipping the file layer; with a path the file must be read and decoded, a
  failure of either being returned to the caller before the environment is looked at;
  the environment layer is applied last, on the value the layers below it resolved.
  The file layer is \<open>ReadJsonConfig\<close> and the environment layer is \<open>envLayer\<close>, both
  from the source.
\<close>

definition Read ::
  "(string \<Rightarrow> string + string) \<Rightarrow> (string \<Rightarrow> 's Config \<Rightarrow> 's Config \<times> error option) \<Rightarrow>
   environ \<Rightarrow> 's \<Rightarrow> (environ \<Rightarrow> 's \<Rightarrow> 's) \<Rightarrow> string \<Rightarrow> error + 's Config" where
  "Read ReadFile Unmarshal env defaultSensorConfig sensorFromEnv filePath =
     (if filePath = [] then Inr (envLayer env sensorFromEnv (DefaultConfig defaultSensorConfig))
      else (case ReadJsonConfig ReadFile Unmarshal defaultSensorConfig filePath of
          (ret, Some err) \<Rightarrow> Inl err
        | (None, None) \<Rightarrow> Inl (ErrorString ''no configuration'')
        | (Some conf, None) \<Rightarrow> Inr (envLayer env sensorFromEnv conf)))"

text \<open>
  A Go function that returns a value and an error exposes the value as usable when the
  error is \<open>nil\<close>: its caller (as \<open>main\<close> does) checks the error before it touches the
  value.
\<close>

definition usable :: "'c option \<times> error option \<Rightarrow> bool" where
  "usable r = (fst r \<noteq> None \<and> snd r = None)"

section \<open>The decimal rendering reads back as the value\<close>

text \<open>
  The text that \<open>%d\<close> writes for an \<open>int\<close> is the one \<open>strconv.Atoi\<close> reads back as
  the same value, so the rendering in an error text identifies the value it was made
  from.
\<close>

lemma digitChar_digit:
  "d < 10 \<Longrightarrow> isDigit (digitChar d)" "d < 10 \<Longrightarrow> digitVal (digitChar d) = int d"
proof -
  assume d: "d < 10"
  then show "isDigit (digitChar d)"
    by (simp add: isDigit_def digitChar_def)
  have "(of_char (digitChar d) :: int) = int (of_char (digitChar d))"
    by (simp only: of_nat_of_char)
  with d show "digitVal (digitChar d) = int d"
    by (simp add: digitVal_def digitChar_def)
qed

lemma isDigit_no_sign: "isDigit c \<Longrightarrow> c \<noteq> CHR ''+'' \<and> c \<noteq> CHR ''-''"
  by (auto simp: isDigit_def)

lemma parseUintDigits_snoc:
  "parseUintDigits n (xs @ [c]) =
     (case parseUintDigits n xs of
        Inl err \<Rightarrow> Inl err
      | Inr m \<Rightarrow>
          if \<not> isDigit c then Inl ErrSyntax
          else if m * 10 + digitVal c > maxUint64 then Inl ErrRange
          else Inr (m * 10 + digitVal c))"
  by (induction xs arbitrary: n) simp_all

lemma parseUintDigits_decimal:
  "int n \<le> maxUint64 \<Longrightarrow> parseUintDigits 0 (decimal n) = Inr (int n)"
proof (induction n rule: decimal.induct)
  case (1 n)
  show ?case
  proof (cases "n < 10")
    case True
    with "1.prems" show ?thesis
      by (subst decimal.simps) (simp add: digitChar_digit)
  next
    case False
    from "1.prems" have "int (n div 10) \<le> maxUint64" by (simp add: zdiv_int)
    with False "1.IH" have ih: "parseUintDigits 0 (decimal (n div 10)) = Inr (int (n div 10))"
      by simp
    have "int (n div 10) * 10 + int (n mod 10) = int n"
      by (simp add: zdiv_int zmod_int)
    with False ih "1.prems" show ?thesis
      by (subst decimal.simps) (simp add: parseUintDigits_snoc digitChar_digit)
  qed
qed

lemma decimal_starts_with_digit: "\<exists>c cs. decimal n = c # cs \<and> isDigit c"
proof (induction n rule: decimal.induct)
  case (1 n)
  show ?case
  proof (cases "n < 10")
    case True
    then show ?thesis by (subst decimal.simps) (simp add: digitChar_digit)
  next
    case False
    with "1.IH" obtain c cs where "decimal (n div 10) = c # cs" "isDigit c" by auto
    with False show ?thesis by (subst decimal.simps) simp
  qed
qed

lemma Atoi_formatInt:
  assumes "- intCutoff \<le> i" and "i < intCutoff"
  shows "Atoi (formatInt i) = Inr i"
proof (cases "i < 0")
  case True
  obtain c cs where d: "decimal (nat (- i)) = c # cs" "isDigit c"
    using decimal_starts_with_digit by blast
  have "int (nat (- i)) \<le> maxUint64"
    using True assms by (simp add: intCutoff_def maxUint64_def)
  then have "parseUintDigits 0 (decimal (nat (- i))) = Inr (- i)"
    using True by (simp add: parseUintDigits_decimal)
  with True assms d show ?thesis
    by (simp add: Atoi_def formatInt_def)
next
  case False
  obtain c cs where d: "decimal (nat i) = c # cs" "isDigit c"
    using decimal_starts_with_digit by blast
  have "int (nat i) \<le> maxUint64"
    using False assms by (simp add: intCutoff_def maxUint64_def)
  then have "parseUintDigits 0 (decimal (nat i)) = Inr i"
    using False by (simp add: parseUintDigits_decimal)
  with False assms d isDigit_no_sign [of c] show ?thesis
    by (simp add: Atoi_def formatInt_def)
qed

section \<open>Validation: the order of the rules\<close>

lemma Validate_empty_placement:
  "Placement conf = [] \<Longrightarrow>
   Validate sv mv conf = Some (ErrorString ''empty placement provided'')"
  by (simp add: Validate_def)

lemma Validate_as_rules:
  "Validate sv mv conf = firstFailure (validationRules sv mv) conf"
  by (simp add: Validate_def validationRules_def rulePlacement_def ruleIntervalLower_def
      ruleIntervalUpper_def ruleSensor_def ruleMqttDisabled_def ruleMqtt_def
      split: option.splits)

lemma formatInt_examples:
  "formatInt 29 = ''29''" "formatInt 301 = ''301''"
  by code_simp+

text \<open>
  C1. \<open>Validate\<close> returns what running the six rules in their fixed order returns:
  placement non-empty, interval at least 30, interval at most 300, the sensor's
  validation, the gate for a disabled MQTT, the MQTT validation. Its result is one
  error, that of the first rule that fails, or none. A configuration with an empty
  placement is rejected with the text "empty placement provided", whatever its other
  fields and whatever the two sub-validations say.
\<close>

theorem Validate_first_failing_rule:
  "Validate sv mv conf = firstFailure (validationRules sv mv) conf \<and>
   (Placement conf = [] \<longrightarrow>
      Validate sv mv conf = Some (ErrorString ''empty placement provided''))"
  using Validate_as_rules [of sv mv conf] Validate_empty_placement [of conf sv mv]
  by blast

theorem Validate_first_failing_rule_witness:
  "Validate (\<lambda>s :: int \<times> int. Some (ErrorString ''invalid bus''))
            (\<lambda>m. if Host m = [] then Some (ErrorString ''empty host'') else None)
     \<lparr>Placement = [], MetricConfig = [], IntervalSecs = 1000, LogSensor = False,
      DisableMqtt = False, MqttConfig = zeroMqttConfig, SensorConfig = (7, 0)\<rparr>
   = Some (ErrorString ''empty placement provided'') \<and>
   Validate (\<lambda>s :: int \<times> int. Some (ErrorString ''invalid bus''))
            (\<lambda>m. if Host m = [] then Some (ErrorString ''empty host'') else None)
     \<lparr>Placement = ''garage'', MetricConfig = [], IntervalSecs = 29, LogSensor = False,
      DisableMqtt = False, MqttConfig = zeroMqttConfig, SensorConfig = (7, 0)\<rparr>
   = Some (ErrorString ''invalid interval: must not be lower than 30 but is 29'') \<and>
   Validate (\<lambda>s :: int \<times> int. Some (ErrorString ''invalid bus''))
            (\<lambda>m. if Host m = [] then Some (ErrorString ''empty host'') else None)
     \<lparr>Placement = ''garage'', MetricConfig = [], IntervalSecs = 60, LogSensor = False,
      DisableMqtt = False, MqttConfig = zeroMqttConfig, SensorConfig = (7, 0)\<rparr>
   = Some (ErrorString ''invalid bus'') \<and>
   Validate (\<lambda>s :: int \<times> int. None)
            (\<lambda>m. if Host m = [] then Some (ErrorString ''empty host'') else None)
     \<lparr>Placement = ''garage'', MetricConfig = [], IntervalSecs = 60, LogSensor = False,
      DisableMqtt = False, MqttConfig = zeroMqttConfig, SensorConfig = (7, 0)\<rparr>
   = Some (ErrorString ''empty host'')"
  using
    Validate_first_failing_rule
      [of "\<lambda>s :: int \<times> int. Some (ErrorString ''invalid bus'')"
          "\<lambda>m. if Host m = [] then Some (ErrorString ''empty host'') else None"
          "\<lparr>Placement = [], MetricConfig = [], IntervalSecs = 1000, LogSensor = False,
            DisableMqtt = False, MqttConfig = zeroMqttConfig, SensorConfig = (7, 0)\<rparr>",
       THEN conjunct2]
    Validate_first_failing_rule
      [of "\<lambda>s :: int \<times> int. Some (ErrorString ''invalid bus'')"
          "\<lambda>m. if Host m = [] then Some (ErrorString ''empty host'') else None"
          "\<lparr>Placement = ''garage'', MetricConfig = [], IntervalSecs = 29, LogSensor = False,
            DisableMqtt = False, MqttConfig = zeroMqttConfig, SensorConfig = (7, 0)\<rparr>",
       THEN conjunct1]
    Validate_first_failing_rule
      [of "\<lambda>s :: int \<times> int. Some (ErrorString ''invalid bus'')"
          "\<lambda>m. if Host m = [] then Some (ErrorString ''empty host'') else None"
          "\<lparr>Placement = ''garage'', MetricConfig = [], IntervalSecs = 60, LogSensor = False,
            DisableMqtt = False, MqttConfig = zeroMqttConfig, SensorConfig = (7, 0)\<rparr>",
       THEN conjunct1]
    Validate_first_failing_rule
      [of "\<lambda>s :: int \<times> int. None"
          "\<lambda>m. if Host m = [] then Some (ErrorString ''empty host'') else None"
          "\<lparr>Placement = ''garage'', MetricConfig = [], IntervalSecs = 60, LogSensor = False,
            DisableMqtt = False, MqttConfig = zeroMqttConfig, SensorConfig = (7, 0)\<rparr>",
       THEN conjunct1]
  by (simp add: validationRules_def rulePlacement_def ruleIntervalLower_def ruleIntervalUpper_def
      ruleSensor_def ruleMqttDisabled_def ruleMqtt_def formatInt_examples zeroMqttConfig_def)

section \<open>Validation: the interval\<close>







section \<open>Validation: a disabled MQTT\<close>

text \<open>
  C4. With \<open>DisableMqtt\<close> set, a configuration whose placement, interval and sensor
  configuration are valid is accepted whatever the MQTT validation says about its MQTT
  configuration: that validation is not consulted.
\<close>

theorem Validate_mqtt_disabled:
  assumes "DisableMqtt conf"
    and "Placement conf \<noteq> []"
    and "30 \<le> IntervalSecs conf" and "IntervalSecs conf \<le> 300"
    and "sv (SensorConfig conf) = None"
  shows "Validate sv mv conf = None"
  using assms by (simp add: Validate_def)

theorem Validate_mqtt_disabled_witness:
  "(\<lambda>m. if Host m = [] then Some (ErrorString ''empty host'') else None) zeroMqttConfig
     = Some (ErrorString ''empty host'') \<and>
   Validate (\<lambda>s :: int \<times> int. None)
            (\<lambda>m. if Host m = [] then Some (ErrorString ''empty host'') else None)
     \<lparr>Placement = ''garage'', MetricConfig = '':9192'', IntervalSecs = 60, LogSensor = False,
      DisableMqtt = True, MqttConfig = zeroMqttConfig, SensorConfig = (1, 118)\<rparr>
     = None"
proof -
  have "Validate (\<lambda>s :: int \<times> int. None)
            (\<lambda>m. if Host m = [] then Some (ErrorString ''empty host'') else None)
     \<lparr>Placement = ''garage'', MetricConfig = '':9192'', IntervalSecs = 60, LogSensor = False,
      DisableMqtt = True, MqttConfig = zeroMqttConfig, SensorConfig = (1, 118)\<rparr>
     = None"
    by (rule Validate_mqtt_disabled) simp_all
  then show ?thesis by (simp add: zeroMqttConfig_def)
qed

section \<open>The environment layer, field by field\<close>

text \<open>The nine names that \<open>ConfigFromEnv\<close> looks up.\<close>

lemma envNames:
  "computeEnvName ''placement'' = ''GOBOT_BME280_PLACEMENT''"
  "computeEnvName ''LOG_SENSOR'' = ''GOBOT_BME280_LOG_SENSOR''"
  "computeEnvName ''INTERVAL_S'' = ''GOBOT_BME280_INTERVAL_S''"
  "computeEnvName ''DISABLE_MQTT'' = ''GOBOT_BME280_DISABLE_MQTT''"
  "computeEnvName ''MQTT_HOST'' = ''GOBOT_BME280_MQTT_HOST''"
  "computeEnvName ''MQTT_TOPIC'' = ''GOBOT_BME280_MQTT_TOPIC''"
  "computeEnvName ''METRICS_ADDR'' = ''GOBOT_BME280_METRICS_ADDR''"
  "computeEnvName ''SSL_CLIENT_KEY_FILE'' = ''GOBOT_BME280_SSL_CLIENT_KEY_FILE''"
  "computeEnvName ''SSL_CLIENT_CERT_FILE'' = ''GOBOT_BME280_SSL_CLIENT_CERT_FILE''"
  by code_simp+

text \<open>
  Each guarded assignment of \<open>ConfigFromEnv\<close> is an update of one field with the value
  the environment provides, or with the value the field has.
\<close>

lemma step_Placement:
  "(case r of Inl err \<Rightarrow> c | Inr v \<Rightarrow> c\<lparr>Placement := v\<rparr>) =
   c\<lparr>Placement := layer (Placement c) (provided r)\<rparr>"
  by (cases r) (simp_all add: layer_def provided_def)

lemma step_LogSensor:
  "(case r of Inl err \<Rightarrow> c | Inr v \<Rightarrow> c\<lparr>LogSensor := v\<rparr>) =
   c\<lparr>LogSensor := layer (LogSensor c) (provided r)\<rparr>"
  by (cases r) (simp_all add: layer_def provided_def)

lemma step_IntervalSecs:
  "(case r of Inl err \<Rightarrow> c | Inr v \<Rightarrow> c\<lparr>IntervalSecs := v\<rparr>) =
   c\<lparr>IntervalSecs := layer (IntervalSecs c) (provided r)\<rparr>"
  by (cases r) (simp_all add: layer_def provided_def)

lemma step_DisableMqtt:
  "(case r of Inl err \<Rightarrow> c | Inr v \<Rightarrow> c\<lparr>DisableMqtt := v\<rparr>) =
   c\<lparr>DisableMqtt := layer (DisableMqtt c) (provided r)\<rparr>"
  by (cases r) (simp_all add: layer_def provided_def)

lemma step_MetricConfig:
  "(case r of Inl err \<Rightarrow> c | Inr v \<Rightarrow> c\<lparr>MetricConfig := v\<rparr>) =
   c\<lparr>MetricConfig := layer (MetricConfig c) (provided r)\<rparr>"
  by (cases r) (simp_all add: layer_def provided_def)

lemma step_Host:
  "(case r of Inl err \<Rightarrow> c | Inr v \<Rightarrow> c\<lparr>MqttConfig := (MqttConfig c)\<lparr>Host := v\<rparr>\<rparr>) =
   c\<lparr>MqttConfig := (MqttConfig c)\<lparr>Host := layer (Host (MqttConfig c)) (provided r)\<rparr>\<rparr>"
  by (cases r) (simp_all add: layer_def provided_def)

lemma step_Topic:
  "(case r of Inl err \<Rightarrow> c | Inr v \<Rightarrow> c\<lparr>MqttConfig := (MqttConfig c)\<lparr>Topic := v\<rparr>\<rparr>) =
   c\<lparr>MqttConfig := (MqttConfig c)\<lparr>Topic := layer (Topic (MqttConfig c)) (provided r)\<rparr>\<rparr>"
  by (cases r) (simp_all add: layer_def provided_def)

lemma step_ClientKeyFile:
  "(case r of Inl err \<Rightarrow> c | Inr v \<Rightarrow> c\<lparr>MqttConfig := (MqttConfig c)\<lparr>ClientKeyFile := v\<rparr>\<rparr>) =
   c\<lparr>MqttConfig := (MqttConfig c)\<lparr>ClientKeyFile := layer (ClientKeyFile (MqttConfig c)) (provided r)\<rparr>\<rparr>"
  by (cases r) (simp_all add: layer_def provided_def)

lemma step_ClientCertFile:
  "(case r of Inl err \<Rightarrow> c | Inr v \<Rightarrow> c\<lparr>MqttConfig := (MqttConfig c)\<lparr>ClientCertFile := v\<rparr>\<rparr>) =
   c\<lparr>MqttConfig := (MqttConfig c)\<lparr>ClientCertFile := layer (ClientCertFile (MqttConfig c)) (provided r)\<rparr>\<rparr>"
  by (cases r) (simp_all add: layer_def provided_def)

lemmas envLayer_steps =
  step_Placement step_LogSensor step_IntervalSecs step_DisableMqtt step_MetricConfig
  step_Host step_Topic step_ClientKeyFile step_ClientCertFile

text \<open>The nine assignments and the sensor's call together, field by field.\<close>

lemma envLayer_layers:
  "envLayer env sfe conf =
     \<lparr>Placement = layer (Placement conf) (provided (fromEnv env ''placement'')),
      MetricConfig = layer (MetricConfig conf) (provided (fromEnv env ''METRICS_ADDR'')),
      IntervalSecs = layer (IntervalSecs conf) (provided (fromEnvInt env ''INTERVAL_S'')),
      LogSensor = layer (LogSensor conf) (provided (fromEnvBool env ''LOG_SENSOR'')),
      DisableMqtt = layer (DisableMqtt conf) (provided (fromEnvBool env ''DISABLE_MQTT'')),
      MqttConfig =
        \<lparr>Host = layer (Host (MqttConfig conf)) (provided (fromEnv env ''MQTT_HOST'')),
         Topic = layer (Topic (MqttConfig conf)) (provided (fromEnv env ''MQTT_TOPIC'')),
         ClientKeyFile =
           layer (ClientKeyFile (MqttConfig conf)) (provided (fromEnv env ''SSL_CLIENT_KEY_FILE'')),
         ClientCertFile =
           layer (ClientCertFile (MqttConfig conf)) (provided (fromEnv env ''SSL_CLIENT_CERT_FILE'')),
         ServerCaFile = ServerCaFile (MqttConfig conf)\<rparr>,
      SensorConfig = sfe env (SensorConfig conf)\<rparr>"
  by (simp add: envLayer_def Let_def envLayer_steps)

text \<open>
  What the three lookups provide, read off the environment: a variable that is not set,
  or set to the empty string, provides nothing; an integer or a boolean is provided
  when its text parses.
\<close>

lemma provided_fromEnv:
  "provided (fromEnv env k) =
     (case env (computeEnvName k) of None \<Rightarrow> None | Some v \<Rightarrow> if v = [] then None else Some v)"
  by (simp add: provided_def fromEnv_def Getenv_def split: option.splits)

lemma Atoi_Nil: "provided (Atoi []) = None"
  by (simp add: Atoi_def provided_def)

lemma ParseBool_Nil: "provided (ParseBool []) = None"
  by (simp add: ParseBool_def provided_def)

lemma provided_fromEnvInt:
  "provided (fromEnvInt env k) =
     (case env (computeEnvName k) of None \<Rightarrow> None | Some v \<Rightarrow> provided (Atoi v))"
  using Atoi_Nil
  by (simp add: provided_def fromEnvInt_def fromEnv_def Getenv_def split: option.splits sum.splits)

lemma provided_fromEnvBool:
  "provided (fromEnvBool env k) =
     (case env (computeEnvName k) of None \<Rightarrow> None | Some v \<Rightarrow> provided (ParseBool v))"
  using ParseBool_Nil
  by (simp add: provided_def fromEnvBool_def fromEnv_def Getenv_def split: option.splits sum.splits)

lemma layer_string:
  "layer prior (case x of None \<Rightarrow> None | Some v \<Rightarrow> if v = [] then None else Some v) =
   (case x of None \<Rightarrow> prior | Some v \<Rightarrow> if v = [] then prior else v)"
  by (simp add: layer_def split: option.splits)

lemma layer_parsed:
  "layer prior (case x of None \<Rightarrow> None | Some v \<Rightarrow> provided (parse v)) =
   (case x of None \<Rightarrow> prior | Some v \<Rightarrow> (case parse v of Inl err \<Rightarrow> prior | Inr b \<Rightarrow> b))"
  by (simp add: layer_def provided_def split: option.splits sum.splits)

section \<open>The environment layer: one variable, one field\<close>

text \<open>
  C5. After the environment layer, each of the nine fields is determined by its own
  variable and its own previous value alone: it keeps its previous value when the
  variable is not set, is empty, or (for the interval and the two flags) does not
  parse, and takes the value of the variable otherwise. No field depends on the
  variable of another field, and the layer returns a configuration for every
  environment: it has no error result.
\<close>

theorem envLayer_per_field:
  "Placement (envLayer env sfe conf) =
     (case env ''GOBOT_BME280_PLACEMENT'' of
        None \<Rightarrow> Placement conf | Some v \<Rightarrow> if v = [] then Placement conf else v) \<and>
   LogSensor (envLayer env sfe conf) =
     (case env ''GOBOT_BME280_LOG_SENSOR'' of
        None \<Rightarrow> LogSensor conf
      | Some v \<Rightarrow> (case ParseBool v of Inl err \<Rightarrow> LogSensor conf | Inr b \<Rightarrow> b)) \<and>
   IntervalSecs (envLayer env sfe conf) =
     (case env ''GOBOT_BME280_INTERVAL_S'' of
        None \<Rightarrow> IntervalSecs conf
      | Some v \<Rightarrow> (case Atoi v of Inl err \<Rightarrow> IntervalSecs conf | Inr n \<Rightarrow> n)) \<and>
   DisableMqtt (envLayer env sfe conf) =
     (case env ''GOBOT_BME280_DISABLE_MQTT'' of
        None \<Rightarrow> DisableMqtt conf
      | Some v \<Rightarrow> (case ParseBool v of Inl err \<Rightarrow> DisableMqtt conf | Inr b \<Rightarrow> b)) \<and>
   Host (MqttConfig (envLayer env sfe conf)) =
     (case env ''GOBOT_BME280_MQTT_HOST'' of
        None \<Rightarrow> Host (MqttConfig conf)
      | Some v \<Rightarrow> if v = [] then Host (MqttConfig conf) else v) \<and>
   Topic (MqttConfig (envLayer env sfe conf)) =
     (case env ''GOBOT_BME280_MQTT_TOPIC'' of
        None \<Rightarrow> Topic (MqttConfig conf)
      | Some v \<Rightarrow> if v = [] then Topic (MqttConfig conf) else v) \<and>
   MetricConfig (envLayer env sfe conf) =
     (case env ''GOBOT_BME280_METRICS_ADDR'' of
        None \<Rightarrow> MetricConfig conf | Some v \<Rightarrow> if v = [] then MetricConfig conf else v) \<and>
   ClientKeyFile (MqttConfig (envLayer env sfe conf)) =
     (case env ''GOBOT_BME280_SSL_CLIENT_KEY_FILE'' of
        None \<Rightarrow> ClientKeyFile (MqttConfig conf)
      | Some v \<Rightarrow> if v = [] then ClientKeyFile (MqttConfig conf) else v) \<and>
   ClientCertFile (MqttConfig (envLayer env sfe conf)) =
     (case env ''GOBOT_BME280_SSL_CLIENT_CERT_FILE'' of
        None \<Rightarrow> ClientCertFile (MqttConfig conf)
      | Some v \<Rightarrow> if v = [] then ClientCertFile (MqttConfig conf) else v)"
  by (simp add: envLayer_layers provided_fromEnv provided_fromEnvInt provided_fromEnvBool
      envNames layer_string layer_parsed)


lemma parse_examples:
  "Atoi ''60'' = Inr 60"
  "Atoi ''sixty'' = Inl (NumError ''Atoi'' ''sixty'' ErrSyntax)"
  "ParseBool ''yes'' = Inl (NumError ''ParseBool'' ''yes'' ErrSyntax)"
  "ParseBool ''true'' = Inr True"
  by code_simp+

theorem envLayer_per_field_witness:
  "LogSensor (envLayer
      [''GOBOT_BME280_LOG_SENSOR'' \<mapsto> ''yes'', ''GOBOT_BME280_INTERVAL_S'' \<mapsto> ''60'',
       ''GOBOT_BME280_DISABLE_MQTT'' \<mapsto> ''true'', ''GOBOT_BME280_MQTT_HOST'' \<mapsto> ''broker'']
      (\<lambda>e s. s)
      \<lparr>Placement = ''garage'', MetricConfig = '':9192'', IntervalSecs = 45, LogSensor = True,
       DisableMqtt = False, MqttConfig = zeroMqttConfig, SensorConfig = (1 :: int, 118 :: int)\<rparr>)
     = True \<and>
   IntervalSecs (envLayer
      [''GOBOT_BME280_LOG_SENSOR'' \<mapsto> ''yes'', ''GOBOT_BME280_INTERVAL_S'' \<mapsto> ''60'',
       ''GOBOT_BME280_DISABLE_MQTT'' \<mapsto> ''true'', ''GOBOT_BME280_MQTT_HOST'' \<mapsto> ''broker'']
      (\<lambda>e s. s)
      \<lparr>Placement = ''garage'', MetricConfig = '':9192'', IntervalSecs = 45, LogSensor = True,
       DisableMqtt = False, MqttConfig = zeroMqttConfig, SensorConfig = (1 :: int, 118 :: int)\<rparr>)
     = 60 \<and>
   DisableMqtt (envLayer
      [''GOBOT_BME280_LOG_SENSOR'' \<mapsto> ''yes'', ''GOBOT_BME280_INTERVAL_S'' \<mapsto> ''60'',
       ''GOBOT_BME280_DISABLE_MQTT'' \<mapsto> ''true'', ''GOBOT_BME280_MQTT_HOST'' \<mapsto> ''broker'']
      (\<lambda>e s. s)
      \<lparr>Placement = ''garage'', MetricConfig = '':9192'', IntervalSecs = 45, LogSensor = True,
       DisableMqtt = False, MqttConfig = zeroMqttConfig, SensorConfig = (1 :: int, 118 :: int)\<rparr>)
     = True \<and>
   Placement (envLayer
      [''GOBOT_BME280_LOG_SENSOR'' \<mapsto> ''yes'', ''GOBOT_BME280_INTERVAL_S'' \<mapsto> ''60'',
       ''GOBOT_BME280_DISABLE_MQTT'' \<mapsto> ''true'', ''GOBOT_BME280_MQTT_HOST'' \<mapsto> ''broker'']
      (\<lambda>e s. s)
      \<lparr>Placement = ''garage'', MetricConfig = '':9192'', IntervalSecs = 45, LogSensor = True,
       DisableMqtt = False, MqttConfig = zeroMqttConfig, SensorConfig = (1 :: int, 118 :: int)\<rparr>)
     = ''garage'' \<and>
   Host (MqttConfig (envLayer
      [''GOBOT_BME280_LOG_SENSOR'' \<mapsto> ''yes'', ''GOBOT_BME280_INTERVAL_S'' \<mapsto> ''60'',
       ''GOBOT_BME280_DISABLE_MQTT'' \<mapsto> ''true'', ''GOBOT_BME280_MQTT_HOST'' \<mapsto> ''broker'']
      (\<lambda>e s. s)
      \<lparr>Placement = ''garage'', MetricConfig = '':9192'', IntervalSecs = 45, LogSensor = True,
       DisableMqtt = False, MqttConfig = zeroMqttConfig, SensorConfig = (1 :: int, 118 :: int)\<rparr>))
     = ''broker''"
  using envLayer_per_field
    [of "[''GOBOT_BME280_LOG_SENSOR'' \<mapsto> ''yes'', ''GOBOT_BME280_INTERVAL_S'' \<mapsto> ''60'',
          ''GOBOT_BME280_DISABLE_MQTT'' \<mapsto> ''true'', ''GOBOT_BME280_MQTT_HOST'' \<mapsto> ''broker'']"
        "\<lambda>e s. s"
        "\<lparr>Placement = ''garage'', MetricConfig = '':9192'', IntervalSecs = 45, LogSensor = True,
          DisableMqtt = False, MqttConfig = zeroMqttConfig, SensorConfig = (1 :: int, 118 :: int)\<rparr>"]
  by (simp add: parse_examples)

section \<open>The environment layer: what it cannot change\<close>

lemma envLayer_frame:
  "envLayer env sfe conf =
     conf\<lparr>Placement := Placement (envLayer env sfe conf),
          LogSensor := LogSensor (envLayer env sfe conf),
          IntervalSecs := IntervalSecs (envLayer env sfe conf),
          DisableMqtt := DisableMqtt (envLayer env sfe conf),
          MetricConfig := MetricConfig (envLayer env sfe conf),
          MqttConfig := (MqttConfig conf)
            \<lparr>Host := Host (MqttConfig (envLayer env sfe conf)),
             Topic := Topic (MqttConfig (envLayer env sfe conf)),
             ClientKeyFile := ClientKeyFile (MqttConfig (envLayer env sfe conf)),
             ClientCertFile := ClientCertFile (MqttConfig (envLayer env sfe conf))\<rparr>,
          SensorConfig := SensorConfig (envLayer env sfe conf)\<rparr>"
  by (simp add: envLayer_layers)

lemma envLayer_ServerCaFile:
  "ServerCaFile (MqttConfig (envLayer env sfe conf)) = ServerCaFile (MqttConfig conf)"
  by (simp add: envLayer_layers)

text \<open>
  C8. For every environment, the environment layer leaves the server CA path as it
  was, and \<open>ConfigFromEnv\<close> returns the one of \<open>DefaultConfig\<close>. The result of the
  layer differs from the configuration it started from in nothing but the nine
  recognized fields and the sensor configuration, which the sensor's own
  \<open>ConfigFromEnv\<close> resolves.
\<close>

theorem env_leaves_server_ca:
  "ServerCaFile (MqttConfig (envLayer env sfe conf)) = ServerCaFile (MqttConfig conf) \<and>
   ServerCaFile (MqttConfig (ConfigFromEnv env dsc sfe)) = ServerCaFile (MqttConfig (DefaultConfig dsc)) \<and>
   envLayer env sfe conf =
     conf\<lparr>Placement := Placement (envLayer env sfe conf),
          LogSensor := LogSensor (envLayer env sfe conf),
          IntervalSecs := IntervalSecs (envLayer env sfe conf),
          DisableMqtt := DisableMqtt (envLayer env sfe conf),
          MetricConfig := MetricConfig (envLayer env sfe conf),
          MqttConfig := (MqttConfig conf)
            \<lparr>Host := Host (MqttConfig (envLayer env sfe conf)),
             Topic := Topic (MqttConfig (envLayer env sfe conf)),
             ClientKeyFile := ClientKeyFile (MqttConfig (envLayer env sfe conf)),
             ClientCertFile := ClientCertFile (MqttConfig (envLayer env sfe conf))\<rparr>,
          SensorConfig := SensorConfig (envLayer env sfe conf)\<rparr>"
  using envLayer_frame [of env sfe conf] envLayer_ServerCaFile [of env sfe]
  by (simp add: ConfigFromEnv_def)

theorem env_leaves_server_ca_witness:
  "ServerCaFile (MqttConfig (envLayer
      [''GOBOT_BME280_SSL_SERVER_CA_FILE'' \<mapsto> ''/env/ca.pem'',
       ''GOBOT_BME280_SERVERCAFILE'' \<mapsto> ''/env/ca.pem'',
       ''GOBOT_BME280_SSL_CLIENT_KEY_FILE'' \<mapsto> ''/env/key.pem'']
      (\<lambda>e s. s)
      \<lparr>Placement = ''garage'', MetricConfig = '':9192'', IntervalSecs = 45, LogSensor = True,
       DisableMqtt = False, MqttConfig = zeroMqttConfig\<lparr>ServerCaFile := ''/file/ca.pem''\<rparr>,
       SensorConfig = (1 :: int, 118 :: int)\<rparr>))
     = ''/file/ca.pem'' \<and>
   ServerCaFile (MqttConfig (ConfigFromEnv
      [''GOBOT_BME280_SSL_SERVER_CA_FILE'' \<mapsto> ''/env/ca.pem'',
       ''GOBOT_BME280_SERVERCAFILE'' \<mapsto> ''/env/ca.pem'',
       ''GOBOT_BME280_SSL_CLIENT_KEY_FILE'' \<mapsto> ''/env/key.pem'']
      (1 :: int, 118 :: int) (\<lambda>e s. s)))
     = []"
  using
    env_leaves_server_ca
      [of "[''GOBOT_BME280_SSL_SERVER_CA_FILE'' \<mapsto> ''/env/ca.pem'',
            ''GOBOT_BME280_SERVERCAFILE'' \<mapsto> ''/env/ca.pem'',
            ''GOBOT_BME280_SSL_CLIENT_KEY_FILE'' \<mapsto> ''/env/key.pem'']"
          "\<lambda>e s. s"
          "\<lparr>Placement = ''garage'', MetricConfig = '':9192'', IntervalSecs = 45, LogSensor = True,
            DisableMqtt = False, MqttConfig = zeroMqttConfig\<lparr>ServerCaFile := ''/file/ca.pem''\<rparr>,
            SensorConfig = (1 :: int, 118 :: int)\<rparr>"
          "(1 :: int, 118 :: int)"]
  by (simp add: DefaultConfig_def zeroMqttConfig_def)

section \<open>The environment layer: the empty string\<close>

lemma layer_simps:
  "layer prior None = prior" "layer prior (Some v) = v"
  "provided (Inl err) = None" "provided (Inr v) = Some v"
  by (simp_all add: layer_def provided_def)

lemma Getenv_empty_unset: "Getenv (env(n \<mapsto> [])) = Getenv (env(n := None))"
  by (rule ext) (simp add: Getenv_def)

lemma fromEnv_empty_unset: "fromEnv (env(n \<mapsto> [])) name = fromEnv (env(n := None)) name"
  by (simp add: fromEnv_def Getenv_empty_unset)

lemma fromEnvInt_empty_unset:
  "fromEnvInt (env(n \<mapsto> [])) name = fromEnvInt (env(n := None)) name"
  by (simp add: fromEnvInt_def fromEnv_empty_unset)

lemma fromEnvBool_empty_unset:
  "fromEnvBool (env(n \<mapsto> [])) name = fromEnvBool (env(n := None)) name"
  by (simp add: fromEnvBool_def fromEnv_empty_unset)

lemma fromEnv_not_defined:
  "env (computeEnvName name) = Some [] \<or> env (computeEnvName name) = None \<Longrightarrow>
   fromEnv env name = Inl (ErrorString ''not defined'')"
  by (auto simp: fromEnv_def Getenv_def)

lemma envLayer_empty_unset:
  "envLayer (env(n \<mapsto> [])) sfe conf =
   (envLayer (env(n := None)) sfe conf)\<lparr>SensorConfig := sfe (env(n \<mapsto> [])) (SensorConfig conf)\<rparr>"
  by (simp add: envLayer_layers fromEnv_empty_unset fromEnvInt_empty_unset fromEnvBool_empty_unset)

lemma layer_fromEnv_nonempty:
  "layer prior (provided (fromEnv env k)) = [] \<Longrightarrow> prior = []"
  by (auto simp: layer_def provided_def fromEnv_def Let_def split: if_splits)

lemma envLayer_strings_nonempty:
  "Placement (envLayer env sfe conf) = [] \<Longrightarrow> Placement conf = []"
  "MetricConfig (envLayer env sfe conf) = [] \<Longrightarrow> MetricConfig conf = []"
  "Host (MqttConfig (envLayer env sfe conf)) = [] \<Longrightarrow> Host (MqttConfig conf) = []"
  "Topic (MqttConfig (envLayer env sfe conf)) = [] \<Longrightarrow> Topic (MqttConfig conf) = []"
  "ClientKeyFile (MqttConfig (envLayer env sfe conf)) = [] \<Longrightarrow> ClientKeyFile (MqttConfig conf) = []"
  "ClientCertFile (MqttConfig (envLayer env sfe conf)) = [] \<Longrightarrow> ClientCertFile (MqttConfig conf) = []"
  by (simp_all add: envLayer_layers layer_fromEnv_nonempty)

text \<open>
  C10. A variable set to the empty string is read as a variable that is not set:
  \<open>fromEnv\<close> answers "not defined" for both, the three lookups and the whole layer
  give the same on an environment where a variable is empty as on the one where it is
  removed (the sensor configuration apart, which the sensor's own code resolves), and
  so no string field is ever overridden to the empty string: a string field that is
  empty after the layer was empty before it.
\<close>

theorem empty_value_is_unset:
  "(env (computeEnvName name) = Some [] \<or> env (computeEnvName name) = None \<longrightarrow>
      fromEnv env name = Inl (ErrorString ''not defined'')) \<and>
   fromEnv (env(n \<mapsto> [])) name = fromEnv (env(n := None)) name \<and>
   fromEnvInt (env(n \<mapsto> [])) name = fromEnvInt (env(n := None)) name \<and>
   fromEnvBool (env(n \<mapsto> [])) name = fromEnvBool (env(n := None)) name \<and>
   envLayer (env(n \<mapsto> [])) sfe conf =
     (envLayer (env(n := None)) sfe conf)\<lparr>SensorConfig := sfe (env(n \<mapsto> [])) (SensorConfig conf)\<rparr> \<and>
   (Placement (envLayer env sfe conf) = [] \<longrightarrow> Placement conf = []) \<and>
   (MetricConfig (envLayer env sfe conf) = [] \<longrightarrow> MetricConfig conf = []) \<and>
   (Host (MqttConfig (envLayer env sfe conf)) = [] \<longrightarrow> Host (MqttConfig conf) = []) \<and>
   (Topic (MqttConfig (envLayer env sfe conf)) = [] \<longrightarrow> Topic (MqttConfig conf) = []) \<and>
   (ClientKeyFile (MqttConfig (envLayer env sfe conf)) = [] \<longrightarrow>
      ClientKeyFile (MqttConfig conf) = []) \<and>
   (ClientCertFile (MqttConfig (envLayer env sfe conf)) = [] \<longrightarrow>
      ClientCertFile (MqttConfig conf) = [])"
  using fromEnv_not_defined [of env name] envLayer_empty_unset [of env n sfe conf]
    envLayer_strings_nonempty [of env sfe conf]
  by (simp add: fromEnv_empty_unset fromEnvInt_empty_unset fromEnvBool_empty_unset)

theorem empty_value_is_unset_witness:
  "fromEnv [''GOBOT_BME280_PLACEMENT'' \<mapsto> []] ''placement'' = Inl (ErrorString ''not defined'') \<and>
   envLayer [''GOBOT_BME280_PLACEMENT'' \<mapsto> []] (\<lambda>e s. s)
      \<lparr>Placement = ''garage'', MetricConfig = '':9192'', IntervalSecs = 45, LogSensor = True,
       DisableMqtt = False, MqttConfig = zeroMqttConfig, SensorConfig = (1 :: int, 118 :: int)\<rparr>
   = \<lparr>Placement = ''garage'', MetricConfig = '':9192'', IntervalSecs = 45, LogSensor = True,
       DisableMqtt = False, MqttConfig = zeroMqttConfig, SensorConfig = (1 :: int, 118 :: int)\<rparr>"
  using
    empty_value_is_unset
      [of "[''GOBOT_BME280_PLACEMENT'' \<mapsto> []]" "''placement''"
          "''GOBOT_BME280_PLACEMENT''" "\<lambda>e s. s"
          "\<lparr>Placement = ''garage'', MetricConfig = '':9192'', IntervalSecs = 45, LogSensor = True,
            DisableMqtt = False, MqttConfig = zeroMqttConfig, SensorConfig = (1 :: int, 118 :: int)\<rparr>"]
  by (simp add: envNames envLayer_layers provided_fromEnv provided_fromEnvInt provided_fromEnvBool
      layer_string layer_parsed layer_simps zeroMqttConfig_def)

section \<open>No file and nothing in the environment\<close>

lemma unset_provides_nothing:
  assumes "Getenv env (computeEnvName k) = []"
  shows "provided (fromEnv env k) = None"
    and "provided (fromEnvInt env k) = None"
    and "provided (fromEnvBool env k) = None"
  using assms by (simp_all add: provided_def fromEnv_def fromEnvInt_def fromEnvBool_def)

text \<open>
  C7. When none of the nine recognized variables has a value and the sensor's own
  resolution leaves the default sensor configuration as it is, \<open>ConfigFromEnv\<close>, which
  reads no file, returns \<open>DefaultConfig\<close>: the placement empty, the metrics address
  \<open>:9192\<close>, the interval 30, sensor logging off, MQTT not disabled, the zero MQTT
  configuration and the default sensor configuration.
\<close>

theorem ConfigFromEnv_nothing_set:
  assumes "\<forall>k \<in> set recognizedKeys. Getenv env (computeEnvName k) = []"
    and "sfe env dsc = dsc"
  shows "ConfigFromEnv env dsc sfe = DefaultConfig dsc \<and>
    ConfigFromEnv env dsc sfe =
      \<lparr>Placement = [], MetricConfig = '':9192'', IntervalSecs = 30, LogSensor = False,
       DisableMqtt = False, MqttConfig = zeroMqttConfig, SensorConfig = dsc\<rparr>"
proof -
  have keys: "Getenv env (computeEnvName k) = []" if "k \<in> set recognizedKeys" for k
    using assms(1) that by blast
  have unset:
    "provided (fromEnv env ''placement'') = None"
    "provided (fromEnvBool env ''LOG_SENSOR'') = None"
    "provided (fromEnvInt env ''INTERVAL_S'') = None"
    "provided (fromEnvBool env ''DISABLE_MQTT'') = None"
    "provided (fromEnv env ''MQTT_HOST'') = None"
    "provided (fromEnv env ''MQTT_TOPIC'') = None"
    "provided (fromEnv env ''METRICS_ADDR'') = None"
    "provided (fromEnv env ''SSL_CLIENT_KEY_FILE'') = None"
    "provided (fromEnv env ''SSL_CLIENT_CERT_FILE'') = None"
    by (rule unset_provides_nothing, rule keys, simp add: recognizedKeys_def)+
  have "envLayer env sfe (DefaultConfig dsc) = DefaultConfig dsc"
    using assms(2) by (simp add: envLayer_layers unset layer_def DefaultConfig_def zeroMqttConfig_def)
  then show ?thesis
    by (simp add: ConfigFromEnv_def DefaultConfig_def defaultMetricConfig_def
        defaultIntervalSeconds_def defaultLogSensor_def)
qed

theorem ConfigFromEnv_nothing_set_witness:
  "ConfigFromEnv
     [''PATH'' \<mapsto> ''/usr/bin'', ''GOBOT_BME280_PLACEMENT'' \<mapsto> [],
      ''GOBOT_BME280_SSL_SERVER_CA_FILE'' \<mapsto> ''/etc/ca.pem'']
     (1 :: int, 118 :: int) (\<lambda>e s. s)
   = \<lparr>Placement = [], MetricConfig = '':9192'', IntervalSecs = 30, LogSensor = False,
      DisableMqtt = False, MqttConfig = zeroMqttConfig, SensorConfig = (1, 118)\<rparr>"
proof -
  have "\<forall>k \<in> set recognizedKeys.
      Getenv [''PATH'' \<mapsto> ''/usr/bin'', ''GOBOT_BME280_PLACEMENT'' \<mapsto> [],
        ''GOBOT_BME280_SSL_SERVER_CA_FILE'' \<mapsto> ''/etc/ca.pem''] (computeEnvName k) = []"
    by (simp add: recognizedKeys_def envNames Getenv_def)
  then show ?thesis
    using ConfigFromEnv_nothing_set
      [of "[''PATH'' \<mapsto> ''/usr/bin'', ''GOBOT_BME280_PLACEMENT'' \<mapsto> [],
            ''GOBOT_BME280_SSL_SERVER_CA_FILE'' \<mapsto> ''/etc/ca.pem'']"
          "\<lambda>e s. s" "(1 :: int, 118 :: int)"]
    by (simp add: DefaultConfig_def defaultMetricConfig_def defaultIntervalSeconds_def
        defaultLogSensor_def)
qed

section \<open>The names of the variables\<close>

lemma upperByte_upperByte: "upperByte (upperByte c) = upperByte c"
  by (auto simp: upperByte_def Let_def)

lemma upperByte_lowerByte: "upperByte (lowerByte c) = upperByte c"
  by (auto simp: upperByte_def lowerByte_def Let_def)

lemma ToUpper_ToUpper: "ToUpper (ToUpper s) = ToUpper s"
  by (simp add: ToUpper_def upperByte_upperByte)

lemma ToUpper_ToLower: "ToUpper (ToLower s) = ToUpper s"
  by (simp add: ToUpper_def ToLower_def upperByte_lowerByte)

lemma ToUpper_BotName: "ToUpper BotName = ''GOBOT_BME280''"
  by code_simp

text \<open>
  C6. The name looked up for a key is the upper-cased \<open>BotName\<close>, an underscore and
  the upper-cased key; for \<open>gobot_bme280\<close> the prefix is \<open>GOBOT_BME280_\<close>. The name is
  a function of the key, and for ASCII keys the case of the key does not matter: the
  upper-cased and the lower-cased key give the name of the key itself, so two keys that
  differ in case only give one name.
\<close>

theorem computeEnvName_uppercase:
  "computeEnvName name = ToUpper BotName @ ''_'' @ ToUpper name \<and>
   computeEnvName name = ''GOBOT_BME280_'' @ ToUpper name \<and>
   (isASCII name \<longrightarrow>
      computeEnvName (ToUpper name) = computeEnvName name \<and>
      computeEnvName (ToLower name) = computeEnvName name) \<and>
   (isASCII a \<and> isASCII b \<and> ToLower a = ToLower b \<longrightarrow> computeEnvName a = computeEnvName b)"
proof (intro conjI impI)
  show "computeEnvName name = ToUpper BotName @ ''_'' @ ToUpper name"
    by (simp add: computeEnvName_def)
  show "computeEnvName name = ''GOBOT_BME280_'' @ ToUpper name"
    by (simp add: computeEnvName_def ToUpper_BotName)
  show "computeEnvName (ToUpper name) = computeEnvName name"
    by (simp add: computeEnvName_def ToUpper_ToUpper)
  show "computeEnvName (ToLower name) = computeEnvName name"
    by (simp add: computeEnvName_def ToUpper_ToLower)
next
  assume "isASCII a \<and> isASCII b \<and> ToLower a = ToLower b"
  then have "ToUpper (ToLower a) = ToUpper (ToLower b)" by simp
  then have "ToUpper a = ToUpper b" by (simp only: ToUpper_ToLower)
  then show "computeEnvName a = computeEnvName b" by (simp add: computeEnvName_def)
qed

lemma name_examples:
  "isASCII ''placement''" "isASCII ''Mqtt_Host''" "isASCII ''MQTT_HOST''"
  "ToLower ''Mqtt_Host'' = ''mqtt_host''" "ToLower ''MQTT_HOST'' = ''mqtt_host''"
  "ToUpper ''placement'' = ''PLACEMENT''" "ToUpper ''MQTT_HOST'' = ''MQTT_HOST''"
  by code_simp+

theorem computeEnvName_uppercase_witness:
  "computeEnvName ''placement'' = ''GOBOT_BME280_PLACEMENT'' \<and>
   computeEnvName ''PLACEMENT'' = ''GOBOT_BME280_PLACEMENT'' \<and>
   computeEnvName ''Mqtt_Host'' = ''GOBOT_BME280_MQTT_HOST''"
  using computeEnvName_uppercase [of "''placement''" "''Mqtt_Host''" "''MQTT_HOST''"]
    computeEnvName_uppercase [of "''MQTT_HOST''" "''Mqtt_Host''" "''MQTT_HOST''"]
  by (simp add: name_examples ToUpper_BotName)

section \<open>The file layer: failures\<close>

lemma ReadJsonConfig_unreadable:
  "RF filePath = Inl msg \<Longrightarrow>
   ReadJsonConfig RF UM dsc filePath =
     (None, Some (ErrorString (''could not read config from file: '' @ msg)))"
  by (simp add: ReadJsonConfig_def)

lemma ReadJsonConfig_decoded:
  "RF filePath = Inr content \<Longrightarrow> UM content (DefaultConfig dsc) = (ret, e) \<Longrightarrow>
   ReadJsonConfig RF UM dsc filePath = (Some ret, e)"
  by (simp add: ReadJsonConfig_def)

text \<open>
  C9. \<open>ReadJsonConfig\<close> returns an error whenever the file cannot be read or its
  bytes do not decode: for an unreadable file a \<open>nil\<close> configuration and the error
  "could not read config from file: ..." with the text of the failure; for a failed
  decode the error of the decoder itself, next to the pointer to \<open>ret\<close> as the
  decoder left it. In both cases the error is not \<open>nil\<close>, so the result is not
  exposed as usable, and nothing is done to \<open>ret\<close> after the decoder has returned:
  the function returns at once, with or without an error.
\<close>

theorem ReadJsonConfig_reports_failure:
  "(RF filePath = Inl msg \<longrightarrow>
      ReadJsonConfig RF UM dsc filePath =
        (None, Some (ErrorString (''could not read config from file: '' @ msg)))) \<and>
   (RF filePath = Inr content \<and> UM content (DefaultConfig dsc) = (ret, Some err) \<longrightarrow>
      ReadJsonConfig RF UM dsc filePath = (Some ret, Some err)) \<and>
   (RF filePath = Inr content \<and> UM content (DefaultConfig dsc) = (ret, None) \<longrightarrow>
      ReadJsonConfig RF UM dsc filePath = (Some ret, None)) \<and>
   (RF filePath = Inl msg \<or>
    (RF filePath = Inr content \<and> snd (UM content (DefaultConfig dsc)) \<noteq> None) \<longrightarrow>
      snd (ReadJsonConfig RF UM dsc filePath) \<noteq> None \<and>
      \<not> usable (ReadJsonConfig RF UM dsc filePath))"
proof (intro conjI impI)
  assume "RF filePath = Inl msg"
  then show "ReadJsonConfig RF UM dsc filePath =
      (None, Some (ErrorString (''could not read config from file: '' @ msg)))"
    by (rule ReadJsonConfig_unreadable)
next
  assume "RF filePath = Inr content \<and> UM content (DefaultConfig dsc) = (ret, Some err)"
  then show "ReadJsonConfig RF UM dsc filePath = (Some ret, Some err)"
    by (simp add: ReadJsonConfig_decoded)
next
  assume "RF filePath = Inr content \<and> UM content (DefaultConfig dsc) = (ret, None)"
  then show "ReadJsonConfig RF UM dsc filePath = (Some ret, None)"
    by (simp add: ReadJsonConfig_decoded)
next
  assume failed: "RF filePath = Inl msg \<or>
    (RF filePath = Inr content \<and> snd (UM content (DefaultConfig dsc)) \<noteq> None)"
  then have err: "snd (ReadJsonConfig RF UM dsc filePath) \<noteq> None"
    by (auto simp: ReadJsonConfig_def split: prod.splits)
  show "snd (ReadJsonConfig RF UM dsc filePath) \<noteq> None" by (rule err)
  show "\<not> usable (ReadJsonConfig RF UM dsc filePath)" using err by (simp add: usable_def)
qed

theorem ReadJsonConfig_reports_failure_witness:
  "ReadJsonConfig
     (\<lambda>p. if p = ''/etc/gobot.json'' then Inr ''{'' else Inl (''open '' @ p @ '': no such file''))
     (\<lambda>content ret. (ret, Some (ErrorString ''unexpected end of JSON input'')))
     (1 :: int, 118 :: int) ''/missing''
   = (None, Some (ErrorString ''could not read config from file: open /missing: no such file'')) \<and>
   ReadJsonConfig
     (\<lambda>p. if p = ''/etc/gobot.json'' then Inr ''{'' else Inl (''open '' @ p @ '': no such file''))
     (\<lambda>content ret. (ret, Some (ErrorString ''unexpected end of JSON input'')))
     (1 :: int, 118 :: int) ''/etc/gobot.json''
   = (Some (DefaultConfig (1, 118)), Some (ErrorString ''unexpected end of JSON input'')) \<and>
   \<not> usable (ReadJsonConfig
     (\<lambda>p. if p = ''/etc/gobot.json'' then Inr ''{'' else Inl (''open '' @ p @ '': no such file''))
     (\<lambda>content ret. (ret, Some (ErrorString ''unexpected end of JSON input'')))
     (1 :: int, 118 :: int) ''/etc/gobot.json'')"
  using
    ReadJsonConfig_reports_failure
      [of "\<lambda>p. if p = ''/etc/gobot.json'' then Inr ''{'' else Inl (''open '' @ p @ '': no such file'')"
          "''/missing''" "''open /missing: no such file''"
          "\<lambda>content ret. (ret, Some (ErrorString ''unexpected end of JSON input''))"
          "(1 :: int, 118 :: int)" "''{''" "DefaultConfig (1, 118)"
          "ErrorString ''unexpected end of JSON input''"]
    ReadJsonConfig_reports_failure
      [of "\<lambda>p. if p = ''/etc/gobot.json'' then Inr ''{'' else Inl (''open '' @ p @ '': no such file'')"
          "''/etc/gobot.json''" "''open /missing: no such file''"
          "\<lambda>content ret. (ret, Some (ErrorString ''unexpected end of JSON input''))"
          "(1 :: int, 118 :: int)" "''{''" "DefaultConfig (1, 118)"
          "ErrorString ''unexpected end of JSON input''"]
  by (simp add: usable_def)

section \<open>Resolution: three layers in order\<close>

lemma Read_no_file:
  "Read RF UM env dsc sfe [] = Inr (envLayer env sfe (DefaultConfig dsc))"
  by (simp add: Read_def)

lemma Read_file:
  "filePath \<noteq> [] \<Longrightarrow> RF filePath = Inr content \<Longrightarrow>
   UM content (DefaultConfig dsc) = (fileConf, None) \<Longrightarrow>
   Read RF UM env dsc sfe filePath = Inr (envLayer env sfe fileConf)"
  by (simp add: Read_def ReadJsonConfig_def)

text \<open>
  C2. \<open>Read\<close> resolves in three layers. Without a file path the environment layer is
  applied to the defaults. With a path whose file is read and decodes to the fields
  \<open>p\<close>, every field of the result is the value the environment provides, else the
  value the file provides, else the default: a layer that does not provide a field
  leaves it as the layer below resolved it, and a value from the environment wins over
  the file's and the default. The server CA path has no environment layer, and the
  sensor configuration is resolved by the sensor's own code on top of the file's.
\<close>

theorem Read_layers_in_order:
  "Read RF UM env dsc sfe [] = Inr (envLayer env sfe (DefaultConfig dsc)) \<and>
   (filePath \<noteq> [] \<and> RF filePath = Inr content \<and>
    UM content (DefaultConfig dsc) = (applyFields p (DefaultConfig dsc), None) \<longrightarrow>
      (\<exists>r. Read RF UM env dsc sfe filePath = Inr r \<and>
         Placement r = layer (layer [] (f_placement p)) (provided (fromEnv env ''placement'')) \<and>
         LogSensor r =
           layer (layer False (f_log_sensor p)) (provided (fromEnvBool env ''LOG_SENSOR'')) \<and>
         IntervalSecs r =
           layer (layer 30 (f_interval_s p)) (provided (fromEnvInt env ''INTERVAL_S'')) \<and>
         DisableMqtt r =
           layer (layer False (f_disable_mqtt p)) (provided (fromEnvBool env ''DISABLE_MQTT'')) \<and>
         MetricConfig r =
           layer (layer '':9192'' (f_metrics_addr p)) (provided (fromEnv env ''METRICS_ADDR'')) \<and>
         Host (MqttConfig r) =
           layer (Host (f_mqtt p zeroMqttConfig)) (provided (fromEnv env ''MQTT_HOST'')) \<and>
         Topic (MqttConfig r) =
           layer (Topic (f_mqtt p zeroMqttConfig)) (provided (fromEnv env ''MQTT_TOPIC'')) \<and>
         ClientKeyFile (MqttConfig r) =
           layer (ClientKeyFile (f_mqtt p zeroMqttConfig))
             (provided (fromEnv env ''SSL_CLIENT_KEY_FILE'')) \<and>
         ClientCertFile (MqttConfig r) =
           layer (ClientCertFile (f_mqtt p zeroMqttConfig))
             (provided (fromEnv env ''SSL_CLIENT_CERT_FILE'')) \<and>
         ServerCaFile (MqttConfig r) = ServerCaFile (f_mqtt p zeroMqttConfig) \<and>
         SensorConfig r = sfe env (f_sensor p dsc)))"
proof (intro conjI impI)
  show "Read RF UM env dsc sfe [] = Inr (envLayer env sfe (DefaultConfig dsc))"
    by (rule Read_no_file)
next
  assume given: "filePath \<noteq> [] \<and> RF filePath = Inr content \<and>
    UM content (DefaultConfig dsc) = (applyFields p (DefaultConfig dsc), None)"
  then have "Read RF UM env dsc sfe filePath =
      Inr (envLayer env sfe (applyFields p (DefaultConfig dsc)))"
    by (simp add: Read_file)
  then show "\<exists>r. Read RF UM env dsc sfe filePath = Inr r \<and>
         Placement r = layer (layer [] (f_placement p)) (provided (fromEnv env ''placement'')) \<and>
         LogSensor r =
           layer (layer False (f_log_sensor p)) (provided (fromEnvBool env ''LOG_SENSOR'')) \<and>
         IntervalSecs r =
           layer (layer 30 (f_interval_s p)) (provided (fromEnvInt env ''INTERVAL_S'')) \<and>
         DisableMqtt r =
           layer (layer False (f_disable_mqtt p)) (provided (fromEnvBool env ''DISABLE_MQTT'')) \<and>
         MetricConfig r =
           layer (layer '':9192'' (f_metrics_addr p)) (provided (fromEnv env ''METRICS_ADDR'')) \<and>
         Host (MqttConfig r) =
           layer (Host (f_mqtt p zeroMqttConfig)) (provided (fromEnv env ''MQTT_HOST'')) \<and>
         Topic (MqttConfig r) =
           layer (Topic (f_mqtt p zeroMqttConfig)) (provided (fromEnv env ''MQTT_TOPIC'')) \<and>
         ClientKeyFile (MqttConfig r) =
           layer (ClientKeyFile (f_mqtt p zeroMqttConfig))
             (provided (fromEnv env ''SSL_CLIENT_KEY_FILE'')) \<and>
         ClientCertFile (MqttConfig r) =
           layer (ClientCertFile (f_mqtt p zeroMqttConfig))
             (provided (fromEnv env ''SSL_CLIENT_CERT_FILE'')) \<and>
         ServerCaFile (MqttConfig r) = ServerCaFile (f_mqtt p zeroMqttConfig) \<and>
         SensorConfig r = sfe env (f_sensor p dsc)"
    by (simp add: envLayer_layers applyFields_def DefaultConfig_def defaultMetricConfig_def
        defaultIntervalSeconds_def defaultLogSensor_def)
qed


theorem Read_layers_in_order_witness:
  "Read
     (\<lambda>p. if p = ''/etc/gobot.json'' then Inr ''{placement: garage, interval_s: 60}''
          else Inl (''open '' @ p @ '': no such file''))
     (\<lambda>content ret.
        (applyFields
           \<lparr>f_placement = Some ''garage'', f_metrics_addr = None, f_interval_s = Some 60,
            f_log_sensor = None, f_disable_mqtt = None, f_mqtt = (\<lambda>m. m), f_sensor = (\<lambda>s. s)\<rparr>
           ret, None))
     [''GOBOT_BME280_LOG_SENSOR'' \<mapsto> ''true'', ''GOBOT_BME280_INTERVAL_S'' \<mapsto> ''90'']
     (1 :: int, 118 :: int) (\<lambda>e s. s) ''/etc/gobot.json''
   = Inr \<lparr>Placement = ''garage'', MetricConfig = '':9192'', IntervalSecs = 90, LogSensor = True,
          DisableMqtt = False, MqttConfig = zeroMqttConfig, SensorConfig = (1, 118)\<rparr>"
proof -
  have parsed: "Atoi ''90'' = Inr 90" "ParseBool ''true'' = Inr True"
    by code_simp+
  from Read_layers_in_order
      [of "\<lambda>p. if p = ''/etc/gobot.json'' then Inr ''{placement: garage, interval_s: 60}''
             else Inl (''open '' @ p @ '': no such file'')"
          "\<lambda>content ret.
             (applyFields
                \<lparr>f_placement = Some ''garage'', f_metrics_addr = None, f_interval_s = Some 60,
                 f_log_sensor = None, f_disable_mqtt = None, f_mqtt = (\<lambda>m. m),
                 f_sensor = (\<lambda>s. s)\<rparr>
                ret, None)"
          "[''GOBOT_BME280_LOG_SENSOR'' \<mapsto> ''true'', ''GOBOT_BME280_INTERVAL_S'' \<mapsto> ''90'']"
          "(1 :: int, 118 :: int)" "\<lambda>e s. s" "''/etc/gobot.json''"
          "''{placement: garage, interval_s: 60}''"
          "\<lparr>f_placement = Some ''garage'', f_metrics_addr = None, f_interval_s = Some 60,
            f_log_sensor = None, f_disable_mqtt = None, f_mqtt = (\<lambda>m. m), f_sensor = (\<lambda>s. s)\<rparr>"]
  obtain r where r: "Read
     (\<lambda>p. if p = ''/etc/gobot.json'' then Inr ''{placement: garage, interval_s: 60}''
          else Inl (''open '' @ p @ '': no such file''))
     (\<lambda>content ret.
        (applyFields
           \<lparr>f_placement = Some ''garage'', f_metrics_addr = None, f_interval_s = Some 60,
            f_log_sensor = None, f_disable_mqtt = None, f_mqtt = (\<lambda>m. m), f_sensor = (\<lambda>s. s)\<rparr>
           ret, None))
     [''GOBOT_BME280_LOG_SENSOR'' \<mapsto> ''true'', ''GOBOT_BME280_INTERVAL_S'' \<mapsto> ''90'']
     (1 :: int, 118 :: int) (\<lambda>e s. s) ''/etc/gobot.json'' = Inr r"
    and fields: "Placement r = ''garage''" "LogSensor r = True" "IntervalSecs r = 90"
      "DisableMqtt r = False" "MetricConfig r = '':9192''" "Host (MqttConfig r) = []"
      "Topic (MqttConfig r) = []" "ClientKeyFile (MqttConfig r) = []"
      "ClientCertFile (MqttConfig r) = []" "ServerCaFile (MqttConfig r) = []"
      "SensorConfig r = (1, 118)"
    by (auto simp: provided_fromEnv provided_fromEnvInt provided_fromEnvBool envNames parsed
        layer_simps zeroMqttConfig_def)
  have "MqttConfig r = zeroMqttConfig"
    using fields by (cases "MqttConfig r") (simp add: zeroMqttConfig_def)
  with fields have
    "r = \<lparr>Placement = ''garage'', MetricConfig = '':9192'', IntervalSecs = 90, LogSensor = True,
          DisableMqtt = False, MqttConfig = zeroMqttConfig, SensorConfig = (1, 118)\<rparr>"
    by (cases r) simp
  with r show ?thesis by simp
qed

end
